theory Spec2Isabelle
  imports Complex_Main "HOL-Library.Word"
begin

section \<open>Values, errors and outcomes\<close>

text \<open>
  A shallow embedding of \<^verbatim>\<open>mbtiles.go\<close>, the read-only access layer for MBTiles
  containers. Go strings are byte strings, modelled as \<^typ>\<open>string\<close>; a \<^verbatim>\<open>[]byte\<close> is a
  list of 8-bit words; a Go \<^verbatim>\<open>int\<close> or \<^verbatim>\<open>int64\<close> is an \<^typ>\<open>int\<close> (64-bit platform; the only
  place where the range matters is \<^verbatim>\<open>strconv.Atoi\<close>, which checks it).
\<close>

type_synonym bytes = "8 word list"

text \<open>
  Every error value the package creates or passes on. The constructors of the first group
  stand for the \<^verbatim>\<open>errors.New\<close> and \<^verbatim>\<open>fmt.Errorf\<close> calls of the source, in the order in
  which they appear there; the rest are errors of the libraries underneath.
\<close>

datatype error =
    ErrPathNotExist string         \<comment> \<open>"path does not exist: %q"\<close>
  | ErrJournal                     \<comment> \<open>"refusing to open mbtiles file with associated -journal file (incomplete tileset)"\<close>
  | ErrNoBackup                    \<comment> \<open>"driver does not support backups"\<close>
  | ErrNoInMemory                  \<comment> \<open>"can not open in memory database backup"\<close>
  | ErrClosed                      \<comment> \<open>"cannot read tile from closed mbtiles database"\<close>
  | ErrMetadataItem string error   \<comment> \<open>"cannot read metadata item %s: %v"\<close>
  | ErrJSON error                  \<comment> \<open>"unable to parse JSON metadata item: %v"\<close>
  | ErrNoConnection                \<comment> \<open>"connection could not be opened"\<close>
  | ErrMissingTables               \<comment> \<open>"missing one or more required tables: tiles, metadata"\<close>
  | ErrParseFloats string error    \<comment> \<open>"could not parse %q to floats: %v"\<close>
  | ErrNotExist                    \<comment> \<open>os.ErrNotExist\<close>
  | ErrOS string                   \<comment> \<open>any other error of os.Stat\<close>
  | ErrEngine string               \<comment> \<open>an error of database/sql or of the SQLite driver\<close>
  | ErrSyntax                      \<comment> \<open>strconv.ErrSyntax\<close>
  | ErrRange                       \<comment> \<open>strconv.ErrRange\<close>
  | ErrLib string                  \<comment> \<open>an error of a library function taken as a parameter\<close>

text \<open>A call either returns or panics (a nil dereference, an assignment to a nil map).\<close>

datatype 'a outcome = Returns 'a | Panics

text \<open>
  Modelled from the spec: the declaration of \<^verbatim>\<open>TileFormat\<close> and its constants is not in
  the sources. The spec gives the closed tag set PNG, JPG, WEBP, PBF, UNKNOWN and the
  transient GZIP tag.
\<close>

datatype TileFormat = UNKNOWN | GZIP | PNG | JPG | PBF | WEBP

section \<open>The dataset: relations, files, pools and sessions\<close>

text \<open>
  A row of the tiles relation. The three key columns hold integers, as the queries and
  the \<^verbatim>\<open>int\<close> destinations of the package take them; \<open>tile_data\<close> is \<open>None\<close> for SQL NULL.
\<close>

record tile =
  zoom_level :: int
  tile_column :: int
  tile_row :: int
  tile_data :: "bytes option"

text \<open>
  What a session can read of an SQLite file: the rows of its catalog
  \<^verbatim>\<open>sqlite_master\<close> as (type, name) pairs, one row per table, index, view and
  trigger; the rows of the tiles relation in storage order; the rows of the metadata
  relation as (name, value), \<open>None\<close> for NULL. A relation is \<open>None\<close> when statements
  over it cannot be prepared (no such table, or not the columns the queries name).
\<close>

record database =
  sqlite_master :: "(string \<times> string) list"
  tiles :: "tile list option"
  metadata :: "(string option \<times> string option) list option"

datatype content =
    Unopenable           \<comment> \<open>the driver cannot open it (a directory, say)\<close>
  | NotADatabase         \<comment> \<open>opens, but every statement over it fails\<close>
  | Database database

record fileinfo =
  modtime :: int         \<comment> \<open>nanoseconds since the epoch\<close>
  content :: content

text \<open>
  A \<^verbatim>\<open>*sql.DB\<close>: the pool of sessions on one data source. \<open>in_use\<close> counts the sessions
  handed out by \<^verbatim>\<open>Conn\<close> and not yet given back by \<^verbatim>\<open>Close\<close>.
\<close>

record sqlDB =
  dsn :: string
  view :: content
  closed :: bool
  in_use :: nat

text \<open>A non-nil \<^verbatim>\<open>*sql.Conn\<close>: the pool it belongs to and what it reads.\<close>

record Conn =
  conn_pool :: nat
  conn_view :: content

text \<open>
  The world the package runs in: what \<^verbatim>\<open>os.Stat\<close> answers for each path, the pools
  created so far (a \<^verbatim>\<open>*sql.DB\<close> is an index into \<open>pools\<close>, \<open>npools\<close> the next free one),
  and whether the driver's connection implements the backup interface.
\<close>

record world =
  stat :: "string \<Rightarrow> error + fileinfo"
  pools :: "nat \<Rightarrow> sqlDB"
  npools :: nat
  driver_backup :: bool

text \<open>The handle. \<open>pool\<close> is \<open>None\<close> for a nil pointer.\<close>

record MBtiles =
  filename :: string
  pool :: "nat option"
  format :: TileFormat
  timestamp :: int
  tilesize :: "32 word"

subsection \<open>database/sql\<close>

text \<open>
  \<^verbatim>\<open>sql.Open("sqlite", path)\<close> only records the data source; with the driver registered
  it does not fail. The new pool reads the file at \<open>path\<close>.
\<close>

definition sql_Open :: "world \<Rightarrow> string \<Rightarrow> nat \<times> world" where
  "sql_Open w path =
     (let c = (case stat w path of Inl e \<Rightarrow> Unopenable | Inr f \<Rightarrow> content f)
      in (npools w,
          w\<lparr>pools := (pools w)(npools w := \<lparr>dsn = path, view = c, closed = False, in_use = 0\<rparr>),
            npools := Suc (npools w)\<rparr>))"

text \<open>\<^verbatim>\<open>sql.OpenDB(connector)\<close> over the connection a finished backup hands back.\<close>

definition sql_OpenDB :: "world \<Rightarrow> string \<Rightarrow> content \<Rightarrow> nat \<times> world" where
  "sql_OpenDB w name c =
     (npools w,
      w\<lparr>pools := (pools w)(npools w := \<lparr>dsn = name, view = c, closed = False, in_use = 0\<rparr>),
        npools := Suc (npools w)\<rparr>)"

text \<open>
  \<^verbatim>\<open>(*sql.DB).Conn\<close>: on a closed pool it returns a nil session and the error
  "sql: database is closed"; otherwise it opens a session, which the driver may refuse.
\<close>

definition DB_Conn :: "world \<Rightarrow> nat \<Rightarrow> (error + Conn) \<times> world" where
  "DB_Conn w p =
     (let d = pools w p in
      if closed d then (Inl (ErrEngine ''sql: database is closed''), w)
      else (case view d of
              Unopenable \<Rightarrow> (Inl (ErrEngine ''unable to open database file''), w)
            | _ \<Rightarrow> (Inr \<lparr>conn_pool = p, conn_view = view d\<rparr>,
                    w\<lparr>pools := (pools w)(p := d\<lparr>in_use := Suc (in_use d)\<rparr>)\<rparr>)))"

text \<open>\<^verbatim>\<open>(*sql.Conn).Close\<close> on a non-nil session gives it back to its pool.\<close>

definition Conn_Close :: "world \<Rightarrow> Conn \<Rightarrow> world" where
  "Conn_Close w c =
     (let d = pools w (conn_pool c)
      in w\<lparr>pools := (pools w)(conn_pool c := d\<lparr>in_use := in_use d - 1\<rparr>)\<rparr>)"

text \<open>\<^verbatim>\<open>(*sql.DB).Close\<close>: no session can be taken from the pool afterwards.\<close>

definition DB_Close :: "world \<Rightarrow> nat \<Rightarrow> world" where
  "DB_Close w p = w\<lparr>pools := (pools w)(p := (pools w p)\<lparr>closed := True\<rparr>)\<rparr>"

text \<open>The statements of the package, by their SQL text.\<close>

datatype query =
    SelectVersion     \<comment> \<open>select sqlite_version()\<close>
  | CountRequired     \<comment> \<open>SELECT count(*) as c FROM sqlite_master WHERE name in ('tiles', 'metadata')\<close>
  | SelectFirstTile   \<comment> \<open>select tile_data from tiles limit 1\<close>
  | SelectTile        \<comment> \<open>select tile_data from tiles where zoom_level = $1 and tile_column = $2 and tile_row = $3\<close>
  | SelectMetadata    \<comment> \<open>select name, value from metadata where value is not ''\<close>
  | SelectZoomRange   \<comment> \<open>select min(zoom_level), max(zoom_level) from tiles\<close>

text \<open>
  \<^verbatim>\<open>PrepareContext\<close>: \<open>None\<close> when the statement is prepared, the engine's error
  otherwise. A prepared statement runs without an error of the engine: \<^verbatim>\<open>Query\<close>,
  \<^verbatim>\<open>Row.Err\<close> and the scans of \<^verbatim>\<open>rows.Next\<close> have no failing branch here. The errors
  of \<^verbatim>\<open>Row.Scan\<close> that the package drops or tests (no row, a NULL for an \<^verbatim>\<open>int\<close>) are
  modelled where they occur.
\<close>

definition PrepareContext :: "Conn \<Rightarrow> query \<Rightarrow> error option" where
  "PrepareContext con q =
     (case conn_view con of
        Unopenable \<Rightarrow> Some (ErrEngine ''unable to open database file'')
      | NotADatabase \<Rightarrow>
          (if q = SelectVersion then None else Some (ErrEngine ''file is not a database''))
      | Database d \<Rightarrow>
          (case q of
             SelectVersion \<Rightarrow> None
           | CountRequired \<Rightarrow> None
           | SelectMetadata \<Rightarrow>
               (if metadata d = None then Some (ErrEngine ''no such table: metadata'') else None)
           | _ \<Rightarrow> (if tiles d = None then Some (ErrEngine ''no such table: tiles'') else None)))"

definition master_rows :: "Conn \<Rightarrow> (string \<times> string) list" where
  "master_rows con = (case conn_view con of Database d \<Rightarrow> sqlite_master d | _ \<Rightarrow> [])"

definition tile_rows :: "Conn \<Rightarrow> tile list" where
  "tile_rows con =
     (case conn_view con of
        Database d \<Rightarrow> (case tiles d of None \<Rightarrow> [] | Some rs \<Rightarrow> rs)
      | _ \<Rightarrow> [])"

definition metadata_rows :: "Conn \<Rightarrow> (string option \<times> string option) list" where
  "metadata_rows con =
     (case conn_view con of
        Database d \<Rightarrow> (case metadata d of None \<Rightarrow> [] | Some rs \<Rightarrow> rs)
      | _ \<Rightarrow> [])"

section \<open>Opening\<close>

text \<open>\<^verbatim>\<open>time.Time.Round(time.Second)\<close>: to the nearest second, halfway values up.\<close>

definition round_second :: "int \<Rightarrow> int" where
  "round_second ns = ((ns + 500000000) div 1000000000) * 1000000000"

definition getModTime :: "world \<Rightarrow> string \<Rightarrow> error + int" where
  "getModTime w path =
     (case stat w path of
        Inl err \<Rightarrow> (if err = ErrNotExist then Inl (ErrPathNotExist path) else Inl err)
      | Inr st \<Rightarrow>
          (case stat w (path @ ''-journal'') of
             Inr j \<Rightarrow> Inl ErrJournal
           | Inl err \<Rightarrow> Inr (round_second (modtime st))))"

text \<open>
  \<^verbatim>\<open>validateRequiredTables\<close>: \<open>count\<close> starts at 0 and the error of \<^verbatim>\<open>Scan\<close> is dropped.
\<close>

definition validateRequiredTables :: "Conn \<Rightarrow> error option" where
  "validateRequiredTables con =
     (case PrepareContext con CountRequired of
        Some err \<Rightarrow> Some err
      | None \<Rightarrow>
          (let count = int (length (filter (\<lambda>(ty, name). name = ''tiles'' \<or> name = ''metadata'')
                                        (master_rows con)))
           in if count < 2 then Some ErrMissingTables else None))"

text \<open>
  \<^verbatim>\<open>getTileFormatAndSize\<close>. \<^verbatim>\<open>detectTileFormat\<close> and \<^verbatim>\<open>detectTileSize\<close> are declared in
  a file that is not in the sources, so they are parameters here: \<open>dtf\<close> and \<open>dts\<close>, each
  returning its value together with its error. \<open>tileData\<close> starts empty and stays so when
  there is no row; the error of \<^verbatim>\<open>Scan\<close> is dropped.
\<close>

definition sample_tile :: "Conn \<Rightarrow> bytes" where
  "sample_tile con =
     (case tile_rows con of
        [] \<Rightarrow> []
      | r # rs \<Rightarrow> (case tile_data r of None \<Rightarrow> [] | Some b \<Rightarrow> b))"

definition getTileFormatAndSize ::
  "(bytes \<Rightarrow> TileFormat \<times> error option) \<Rightarrow> (TileFormat \<Rightarrow> bytes \<Rightarrow> 32 word \<times> error option) \<Rightarrow>
   Conn \<Rightarrow> TileFormat \<times> 32 word \<times> error option" where
  "getTileFormatAndSize dtf dts con =
     (case PrepareContext con SelectFirstTile of
        Some err \<Rightarrow> (UNKNOWN, 0, Some err)
      | None \<Rightarrow>
          (let tileData = sample_tile con in
           case dtf tileData of
             (format0, Some err) \<Rightarrow> (UNKNOWN, 0, Some err)
           | (format0, None) \<Rightarrow>
               (let format1 = (if format0 = GZIP then PBF else format0) in
                case dts format1 tileData of
                  (tsize, Some err) \<Rightarrow> (format1, tsize, Some err)
                | (tsize, None) \<Rightarrow> (format1, tsize, None))))"

text \<open>
  \<^verbatim>\<open>Open\<close>. The query for the engine's version stands here as its preparation. No
  path of the function closes the session \<open>con\<close> or the pool \<open>db\<close>: the world it returns
  is the one in which both are still open.
\<close>

definition Open ::
  "(bytes \<Rightarrow> TileFormat \<times> error option) \<Rightarrow> (TileFormat \<Rightarrow> bytes \<Rightarrow> 32 word \<times> error option) \<Rightarrow>
   world \<Rightarrow> string \<Rightarrow> (error + MBtiles) \<times> world" where
  "Open dtf dts w path =
     (case getModTime w path of
        Inl err \<Rightarrow> (Inl err, w)
      | Inr modTime \<Rightarrow>
          (case sql_Open w path of (db, w1) \<Rightarrow>
           (case DB_Conn w1 db of
              (Inl err, w2) \<Rightarrow> (Inl err, w2)
            | (Inr con, w2) \<Rightarrow>
                (case PrepareContext con SelectVersion of
                   Some err \<Rightarrow> (Inl err, w2)
                 | None \<Rightarrow>
                     (case validateRequiredTables con of
                        Some err \<Rightarrow> (Inl err, w2)
                      | None \<Rightarrow>
                          (case getTileFormatAndSize dtf dts con of
                             (fmt, tsize, Some err) \<Rightarrow> (Inl err, w2)
                           | (fmt, tsize, None) \<Rightarrow>
                               (Inr \<lparr>filename = path, pool = Some db, format = fmt,
                                     timestamp = modTime, tilesize = tsize\<rparr>, w2)))))))"

subsection \<open>The in-memory copy\<close>

text \<open>
  The driver's backup object. \<^verbatim>\<open>Step(-1)\<close> copies all remaining pages, so it never
  reports that more are left; it fails on a source that is not a database.
\<close>

record Backup =
  bk_src :: content

definition NewBackup :: "Conn \<Rightarrow> string \<Rightarrow> error + Backup" where
  "NewBackup con dst = Inr \<lparr>bk_src = conn_view con\<rparr>"

definition Step_all :: "Backup \<Rightarrow> bool \<times> error option" where
  "Step_all bck =
     (case bk_src bck of
        Database d \<Rightarrow> (False, None)
      | _ \<Rightarrow> (False, Some (ErrEngine ''file is not a database'')))"

definition Commit :: "Backup \<Rightarrow> error + content" where
  "Commit bck = Inr (bk_src bck)"

text \<open>
  The loop \<^verbatim>\<open>for more := true; more; { more, err = bck.Step(-1); ... }\<close>; \<open>more_left\<close>
  is the variable \<open>more\<close> of the source.
\<close>

function copy_loop :: "Backup \<Rightarrow> error option" where
  "copy_loop bck =
     (case Step_all bck of
        (more_left, Some err) \<Rightarrow> Some err
      | (more_left, None) \<Rightarrow> (if more_left then copy_loop bck else None))"
  by pat_completeness auto
termination
  by (relation "{}") (auto simp: Step_all_def split: content.splits)

declare copy_loop.simps [simp del]

definition inMemoryPath :: string where
  "inMemoryPath = ''file::mem:?mode=memory''"

text \<open>
  The closure handed to \<^verbatim>\<open>srcConn.Raw\<close>. \<^verbatim>\<open>sql.OpenDB\<close> never returns nil, so the
  branch with "can not open in memory database backup" is not taken.
\<close>

definition backup_to_memory :: "world \<Rightarrow> Conn \<Rightarrow> (error + nat) \<times> world" where
  "backup_to_memory w srcConn =
     (if \<not> driver_backup w then (Inl ErrNoBackup, w)
      else (case NewBackup srcConn inMemoryPath of
              Inl err \<Rightarrow> (Inl err, w)
            | Inr bck \<Rightarrow>
                (case copy_loop bck of
                   Some err \<Rightarrow> (Inl err, w)
                 | None \<Rightarrow>
                     (case Commit bck of
                        Inl err \<Rightarrow> (Inl err, w)
                      | Inr c \<Rightarrow>
                          (case sql_OpenDB w inMemoryPath c of
                             (inMemDB, w') \<Rightarrow> (Inr inMemDB, w'))))))"

text \<open>
  \<^verbatim>\<open>OpenInMemory\<close>. The deferred \<^verbatim>\<open>srcConn.Close()\<close> and \<^verbatim>\<open>db.Close()\<close> run, in this
  order, on every return after they are registered; nothing closes \<open>dstConn\<close> or
  \<open>inMemDB\<close>.
\<close>

definition OpenInMemory ::
  "(bytes \<Rightarrow> TileFormat \<times> error option) \<Rightarrow> (TileFormat \<Rightarrow> bytes \<Rightarrow> 32 word \<times> error option) \<Rightarrow>
   world \<Rightarrow> string \<Rightarrow> (error + MBtiles) \<times> world" where
  "OpenInMemory dtf dts w path =
     (case getModTime w path of
        Inl err \<Rightarrow> (Inl err, w)
      | Inr modTime \<Rightarrow>
          (case sql_Open w path of (db, w1) \<Rightarrow>
           (case DB_Conn w1 db of
              (Inl err, w2) \<Rightarrow> (Inl err, DB_Close w2 db)
            | (Inr srcConn, w2) \<Rightarrow>
                (case backup_to_memory w2 srcConn of
                   (Inl err, w3) \<Rightarrow> (Inl err, DB_Close (Conn_Close w3 srcConn) db)
                 | (Inr inMemDB, w3) \<Rightarrow>
                     (case DB_Conn w3 inMemDB of
                        (Inl err, w4) \<Rightarrow> (Inl err, DB_Close (Conn_Close w4 srcConn) db)
                      | (Inr dstConn, w4) \<Rightarrow>
                          (case validateRequiredTables dstConn of
                             Some err \<Rightarrow> (Inl err, DB_Close (Conn_Close w4 srcConn) db)
                           | None \<Rightarrow>
                               (case getTileFormatAndSize dtf dts dstConn of
                                  (fmt, tsize, Some err) \<Rightarrow>
                                    (Inl err, DB_Close (Conn_Close w4 srcConn) db)
                                | (fmt, tsize, None) \<Rightarrow>
                                    (Inr \<lparr>filename = inMemoryPath, pool = Some inMemDB,
                                          format = fmt, timestamp = modTime, tilesize = tsize\<rparr>,
                                     DB_Close (Conn_Close w4 srcConn) db))))))))"

text \<open>\<^verbatim>\<open>GetTileFormat\<close> reads a field of its receiver, which must not be nil.\<close>

definition GetTileFormat :: "MBtiles option \<Rightarrow> TileFormat outcome" where
  "GetTileFormat db = (case db of None \<Rightarrow> Panics | Some h \<Rightarrow> Returns (format h))"

section \<open>Reading\<close>

text \<open>\<^verbatim>\<open>Close\<close> closes the pool and leaves the field \<open>pool\<close> of the handle as it is.\<close>

definition Close :: "world \<Rightarrow> MBtiles option \<Rightarrow> world outcome" where
  "Close w db =
     (case db of
        None \<Rightarrow> Panics
      | Some h \<Rightarrow> (case pool h of None \<Rightarrow> Returns w | Some p \<Rightarrow> Returns (DB_Close w p)))"

text \<open>
  \<^verbatim>\<open>getConnection\<close> drops the error of \<^verbatim>\<open>Conn\<close> and looks at the session only: the
  result is either (nil, error), here \<open>Inl\<close>, or (con, nil), here \<open>Inr\<close>.
\<close>

definition getConnection :: "world \<Rightarrow> MBtiles \<Rightarrow> ((error + Conn) \<times> world) outcome" where
  "getConnection w h =
     (case pool h of
        None \<Rightarrow> Panics
      | Some p \<Rightarrow>
          (case DB_Conn w p of
             (Inl err, w') \<Rightarrow> Returns (Inl ErrNoConnection, w')
           | (Inr con, w') \<Rightarrow> Returns (Inr con, w')))"

text \<open>
  \<^verbatim>\<open>closeConnection\<close> calls \<^verbatim>\<open>con.Close()\<close> whatever \<open>con\<close> is; on a nil \<^verbatim>\<open>*sql.Conn\<close>
  that call dereferences the nil pointer.
\<close>

definition closeConnection :: "world \<Rightarrow> Conn option \<Rightarrow> world outcome" where
  "closeConnection w con = (case con of None \<Rightarrow> Panics | Some c \<Rightarrow> Returns (Conn_Close w c))"

text \<open>
  The part of \<^verbatim>\<open>ReadTile\<close> after the session is there: prepare, \<^verbatim>\<open>QueryRow\<close> (never
  nil), \<^verbatim>\<open>Scan\<close>. With no row \<^verbatim>\<open>Scan\<close> gives \<^verbatim>\<open>sql.ErrNoRows\<close> and the function returns nil
  without writing \<open>*data\<close>; with a row \<^verbatim>\<open>Scan\<close> stores a copy of the column (nil for NULL).
\<close>

definition ReadTile_query ::
  "Conn \<Rightarrow> int \<Rightarrow> int \<Rightarrow> int \<Rightarrow> bytes option \<Rightarrow> error option \<times> bytes option" where
  "ReadTile_query con z x y data =
     (case PrepareContext con SelectTile of
        Some err \<Rightarrow> (Some err, data)
      | None \<Rightarrow>
          (case find (\<lambda>r. zoom_level r = z \<and> tile_column r = x \<and> tile_row r = y) (tile_rows con) of
             None \<Rightarrow> (None, data)
           | Some r \<Rightarrow> (None, tile_data r)))"

text \<open>
  \<^verbatim>\<open>ReadTile\<close>. \<open>data\<close> is the caller's buffer \<open>*data\<close> before the call (\<open>None\<close> for a nil
  slice); the result holds the returned error, the buffer after the call and the world.
  The deferred \<^verbatim>\<open>closeConnection(con)\<close> is registered before the error of
  \<^verbatim>\<open>getConnection\<close> is looked at, so it runs with a nil \<open>con\<close> when there is one.
\<close>

definition ReadTile ::
  "world \<Rightarrow> MBtiles option \<Rightarrow> int \<Rightarrow> int \<Rightarrow> int \<Rightarrow> bytes option \<Rightarrow>
   (error option \<times> bytes option \<times> world) outcome" where
  "ReadTile w db z x y data =
     (case db of
        None \<Rightarrow> Returns (Some ErrClosed, data, w)
      | Some h \<Rightarrow>
          (if pool h = None then Returns (Some ErrClosed, data, w)
           else (case getConnection w h of
                   Panics \<Rightarrow> Panics
                 | Returns (r, w1) \<Rightarrow>
                     (let con = (case r of Inl err \<Rightarrow> None | Inr c \<Rightarrow> Some c);
                          res = (case r of Inl err \<Rightarrow> (Some err, data)
                                 | Inr c \<Rightarrow> ReadTile_query c z x y data)
                      in case closeConnection w1 con of
                           Panics \<Rightarrow> Panics
                         | Returns w2 \<Rightarrow> Returns (fst res, snd res, w2)))))"

section \<open>Metadata\<close>

subsection \<open>Library functions\<close>

text \<open>
  \<^verbatim>\<open>strconv.Atoi\<close> is \<^verbatim>\<open>ParseInt(s, 10, 0)\<close>: an optional sign, then decimal digits read
  from the left; a byte that is no digit is a syntax error, a value that leaves the
  unsigned 64-bit range while reading, or the signed one at the end, a range error.
\<close>

definition is_digit :: "char \<Rightarrow> bool" where
  "is_digit c = (48 \<le> (of_char c :: nat) \<and> (of_char c :: nat) \<le> 57)"

definition digit_val :: "char \<Rightarrow> int" where
  "digit_val c = int (of_char c) - 48"

fun parse_digits :: "int \<Rightarrow> string \<Rightarrow> error + int" where
  "parse_digits n [] = Inr n"
| "parse_digits n (c # cs) =
     (if \<not> is_digit c then Inl ErrSyntax
      else (let n1 = n * 10 + digit_val c
            in if 18446744073709551616 \<le> n1 then Inl ErrRange else parse_digits n1 cs))"

definition Atoi :: "string \<Rightarrow> error + int" where
  "Atoi s =
     (let neg = (case s of [] \<Rightarrow> False | c # cs \<Rightarrow> c = CHR ''-'');
          ds = (case s of [] \<Rightarrow> [] | c # cs \<Rightarrow> if c = CHR ''-'' \<or> c = CHR ''+'' then cs else s)
      in if ds = [] then Inl ErrSyntax
         else (case parse_digits 0 ds of
                 Inl err \<Rightarrow> Inl err
               | Inr un \<Rightarrow>
                   (if \<not> neg \<and> 9223372036854775808 \<le> un then Inl ErrRange
                    else if neg \<and> 9223372036854775808 < un then Inl ErrRange
                    else Inr (if neg then - un else un))))"

text \<open>\<^verbatim>\<open>strings.Split(s, sep)\<close> for a separator of one byte: the pieces between its occurrences.\<close>

fun Split :: "string \<Rightarrow> char \<Rightarrow> string list" where
  "Split [] sep = [[]]"
| "Split (c # cs) sep =
     (if c = sep then [] # Split cs sep
      else (case Split cs sep of [] \<Rightarrow> [[c]] | p # ps \<Rightarrow> (c # p) # ps))"

text \<open>
  The library functions whose results are not fixed here: \<^verbatim>\<open>strings.TrimSpace\<close>,
  \<^verbatim>\<open>strconv.ParseFloat(_, 64)\<close> into a type \<open>'f\<close> of floating-point numbers, and
  \<^verbatim>\<open>json.Unmarshal\<close> into a \<^verbatim>\<open>map[string]interface{}\<close>, which fails, or sets the map to nil
  for the JSON value null, or stores the members of the top-level object in their order
  (\<open>'j\<close> is the type of the values it builds).
\<close>

datatype 'j jresult = JError error | JNull | JObject "(string \<times> 'j) list"

record ('f, 'j) stdlib =
  TrimSpace :: "string \<Rightarrow> string"
  ParseFloat :: "string \<Rightarrow> error + 'f"
  Unmarshal :: "string \<Rightarrow> 'j jresult"

subsection \<open>parseFloats\<close>

text \<open>The loop of \<^verbatim>\<open>parseFloats\<close> over the pieces left, \<open>out\<close> being the slice built so far.\<close>

fun parseFloats_loop ::
  "('f, 'j) stdlib \<Rightarrow> string \<Rightarrow> string list \<Rightarrow> 'f list \<Rightarrow> 'f list \<times> error option" where
  "parseFloats_loop lib str [] out = (out, None)"
| "parseFloats_loop lib str (v # vs) out =
     (case ParseFloat lib (TrimSpace lib v) of
        Inl err \<Rightarrow> (out, Some (ErrParseFloats str err))
      | Inr val \<Rightarrow> parseFloats_loop lib str vs (out @ [val]))"

definition parseFloats :: "('f, 'j) stdlib \<Rightarrow> string \<Rightarrow> 'f list \<times> error option" where
  "parseFloats lib str = parseFloats_loop lib str (Split str CHR '','') []"

subsection \<open>ReadMetadata\<close>

text \<open>The values of the document, a \<^verbatim>\<open>map[string]interface{}\<close> that may be nil (\<open>None\<close>).\<close>

datatype ('f, 'j) mvalue = VInt int | VFloats "'f list" | VString string | VJson 'j

type_synonym ('f, 'j) document = "(string \<rightharpoonup> ('f, 'j) mvalue) option"

text \<open>
  The body of the loop over the rows. \<^verbatim>\<open>Scan\<close> into a \<^verbatim>\<open>sql.NullString\<close> leaves the empty
  string in its field \<^verbatim>\<open>String\<close> for NULL. An assignment \<^verbatim>\<open>metadata[k] = v\<close> panics on a nil map; it is carried
  out before the error of the conversion is looked at.
\<close>

definition NullString_String :: "string option \<Rightarrow> string" where
  "NullString_String v = (case v of None \<Rightarrow> [] | Some s \<Rightarrow> s)"

definition scan_row ::
  "('f, 'j) stdlib \<Rightarrow> ('f, 'j) document \<Rightarrow> string option \<times> string option \<Rightarrow>
   (error + ('f, 'j) document) outcome" where
  "scan_row lib md row =
     (let name = NullString_String (fst row);
          val = NullString_String (snd row)
      in if name = ''maxzoom'' \<or> name = ''minzoom'' then
           (case md of
              None \<Rightarrow> Panics
            | Some m \<Rightarrow>
                (case Atoi val of
                   Inl err \<Rightarrow> Returns (Inl (ErrMetadataItem name err))
                 | Inr i \<Rightarrow> Returns (Inr (Some (m(name \<mapsto> VInt i))))))
         else if name = ''bounds'' \<or> name = ''center'' then
           (case md of
              None \<Rightarrow> Panics
            | Some m \<Rightarrow>
                (case parseFloats lib val of
                   (out, Some err) \<Rightarrow> Returns (Inl (ErrMetadataItem name err))
                 | (out, None) \<Rightarrow> Returns (Inr (Some (m(name \<mapsto> VFloats out))))))
         else if name = ''json'' then
           (case Unmarshal lib val of
              JError err \<Rightarrow> Returns (Inl (ErrJSON err))
            | JNull \<Rightarrow> Returns (Inr None)
            | JObject members \<Rightarrow>
                Returns (Inr (Some (fold (\<lambda>(k, v) m. m(k \<mapsto> VJson v)) members
                                      (case md of None \<Rightarrow> Map.empty | Some m \<Rightarrow> m)))))
         else
           (case md of
              None \<Rightarrow> Panics
            | Some m \<Rightarrow> Returns (Inr (Some (m(name \<mapsto> VString val))))))"

fun scan_rows ::
  "('f, 'j) stdlib \<Rightarrow> ('f, 'j) document \<Rightarrow> (string option \<times> string option) list \<Rightarrow>
   (error + ('f, 'j) document) outcome" where
  "scan_rows lib md [] = Returns (Inr md)"
| "scan_rows lib md (row # rows) =
     (case scan_row lib md row of
        Panics \<Rightarrow> Panics
      | Returns (Inl err) \<Rightarrow> Returns (Inl err)
      | Returns (Inr md') \<Rightarrow> scan_rows lib md' rows)"

text \<open>The rows of \<^verbatim>\<open>select name, value from metadata where value is not ''\<close>.\<close>

definition selected_rows :: "Conn \<Rightarrow> (string option \<times> string option) list" where
  "selected_rows con = filter (\<lambda>row. snd row \<noteq> Some []) (metadata_rows con)"

text \<open>
  The row of \<^verbatim>\<open>select min(zoom_level), max(zoom_level) from tiles\<close>: two NULLs over
  an empty relation.
\<close>

definition zoom_range :: "tile list \<Rightarrow> int option \<times> int option" where
  "zoom_range rs =
     (case rs of
        [] \<Rightarrow> (None, None)
      | r # rs' \<Rightarrow> (Some (fold min (map zoom_level rs') (zoom_level r)),
                   Some (fold max (map zoom_level rs') (zoom_level r))))"

text \<open>
  \<^verbatim>\<open>row.Scan(&minZoom, &maxZoom)\<close> with both variables 0 before: the columns are
  converted in turn, the first NULL stops the scan, and its error is dropped.
\<close>

definition scan_zooms :: "int option \<times> int option \<Rightarrow> int \<times> int" where
  "scan_zooms row =
     (case fst row of
        None \<Rightarrow> (0, 0)
      | Some lo \<Rightarrow> (case snd row of None \<Rightarrow> (lo, 0) | Some hi \<Rightarrow> (lo, hi)))"

definition has_key :: "('f, 'j) document \<Rightarrow> string \<Rightarrow> bool" where
  "has_key md k = (case md of None \<Rightarrow> False | Some m \<Rightarrow> m k \<noteq> None)"

text \<open>The lines after the loop: "Supplement missing values by inferring from available data".\<close>

definition supplement :: "Conn \<Rightarrow> ('f, 'j) document \<Rightarrow> (error + ('f, 'j) document) outcome" where
  "supplement con md =
     (let hasMinZoom = has_key md ''minzoom'';
          hasMaxZoom = has_key md ''maxzoom''
      in if \<not> (hasMinZoom \<and> hasMaxZoom) then
           (case PrepareContext con SelectZoomRange of
              Some err \<Rightarrow> Returns (Inl err)
            | None \<Rightarrow>
                (case scan_zooms (zoom_range (tile_rows con)) of
                   (minZoom, maxZoom) \<Rightarrow>
                     (case md of
                        None \<Rightarrow> Panics
                      | Some m \<Rightarrow>
                          Returns (Inr (Some (m(''minzoom'' \<mapsto> VInt minZoom,
                                                ''maxzoom'' \<mapsto> VInt maxZoom)))))))
         else Returns (Inr md))"

text \<open>The part of \<^verbatim>\<open>ReadMetadata\<close> after the session is there.\<close>

definition ReadMetadata_query ::
  "('f, 'j) stdlib \<Rightarrow> Conn \<Rightarrow> (error + ('f, 'j) document) outcome" where
  "ReadMetadata_query lib con =
     (case PrepareContext con SelectMetadata of
        Some err \<Rightarrow> Returns (Inl err)
      | None \<Rightarrow>
          (case scan_rows lib (Some Map.empty) (selected_rows con) of
             Panics \<Rightarrow> Panics
           | Returns (Inl err) \<Rightarrow> Returns (Inl err)
           | Returns (Inr md) \<Rightarrow> supplement con md))"

definition ReadMetadata ::
  "('f, 'j) stdlib \<Rightarrow> world \<Rightarrow> MBtiles option \<Rightarrow> ((error + ('f, 'j) document) \<times> world) outcome" where
  "ReadMetadata lib w db =
     (case db of
        None \<Rightarrow> Returns (Inl ErrClosed, w)
      | Some h \<Rightarrow>
          (if pool h = None then Returns (Inl ErrClosed, w)
           else (case getConnection w h of
                   Panics \<Rightarrow> Panics
                 | Returns (r, w1) \<Rightarrow>
                     (let con = (case r of Inl err \<Rightarrow> None | Inr c \<Rightarrow> Some c);
                          res = (case r of Inl err \<Rightarrow> Returns (Inl err)
                                 | Inr c \<Rightarrow> ReadMetadata_query lib c)
                      in case closeConnection w1 con of
                           Panics \<Rightarrow> Panics
                         | Returns w2 \<Rightarrow>
                             (case res of Panics \<Rightarrow> Panics | Returns v \<Rightarrow> Returns (v, w2))))))"

subsection \<open>A property of documents\<close>


section \<open>Example datasets\<close>

text \<open>
  Concrete inputs for the theorems below. A world whose file system holds the given
  files and in which no pool has been created yet; a dataset stored as the file
  \<open>demo.mbtiles\<close>; the world \<^verbatim>\<open>Open\<close> leaves behind for it and the handle it returns.
\<close>

definition fresh_world :: "(string \<times> fileinfo) list \<Rightarrow> world" where
  "fresh_world files =
     \<lparr>stat = (\<lambda>p. case map_of files p of None \<Rightarrow> Inl ErrNotExist | Some f \<Rightarrow> Inr f),
      pools = (\<lambda>i. \<lparr>dsn = [], view = Unopenable, closed = True, in_use = 0\<rparr>),
      npools = 0, driver_backup = True\<rparr>"

definition file_of :: "database \<Rightarrow> fileinfo" where
  "file_of d = \<lparr>modtime = 1700000000400000000, content = Database d\<rparr>"

definition on_disk :: "database \<Rightarrow> world" where
  "on_disk d = fresh_world [(''demo.mbtiles'', file_of d)]"

definition opened :: "database \<Rightarrow> world" where
  "opened d =
     (on_disk d)\<lparr>pools := (pools (on_disk d))
                   (0 := \<lparr>dsn = ''demo.mbtiles'', view = Database d, closed = False, in_use = 1\<rparr>),
                 npools := 1\<rparr>"

definition handle_of :: "TileFormat \<Rightarrow> MBtiles" where
  "handle_of fmt = \<lparr>filename = ''demo.mbtiles'', pool = Some 0, format = fmt,
                     timestamp = 1700000000000000000, tilesize = 0\<rparr>"

text \<open>
  Stand-ins for \<^verbatim>\<open>detectTileFormat\<close> and \<^verbatim>\<open>detectTileSize\<close>: the first knows the empty
  sample and the gzip magic pair only, the second detects no size.
\<close>

definition demo_sniff :: "bytes \<Rightarrow> TileFormat \<times> error option" where
  "demo_sniff b =
     (if b = [] then (UNKNOWN, None)
      else if take 2 b = [0x1F, 0x8B] then (GZIP, None)
      else (UNKNOWN, Some (ErrLib ''unknown tile format'')))"

definition demo_probe :: "TileFormat \<Rightarrow> bytes \<Rightarrow> 32 word \<times> error option" where
  "demo_probe f b = (0, None)"




text \<open>
  Two gzip tiles at zoom 3 and 12; of the two zoom keys the metadata rows give
  \<open>minzoom\<close> only. \<open>demo_pass\<close> is the document the pass over these rows leaves.
\<close>

definition demo_tiles :: "tile list" where
  "demo_tiles =
     [\<lparr>zoom_level = 3, tile_column = 1, tile_row = 2, tile_data = Some [0x1F, 0x8B, 8]\<rparr>,
      \<lparr>zoom_level = 12, tile_column = 5, tile_row = 6, tile_data = Some [0x1F, 0x8B, 9]\<rparr>]"

definition demo_rows :: "(string option \<times> string option) list" where
  "demo_rows =
     [(Some ''name'', Some ''demo''),
      (Some ''minzoom'', Some ''7''),
      (Some ''attribution'', Some []),
      (Some ''bounds'', Some ''-1.0, 2.5,3'')]"

definition demo_db :: database where
  "demo_db =
     \<lparr>sqlite_master = [(''table'', ''metadata''), (''table'', ''tiles'')],
      tiles = Some demo_tiles, metadata = Some demo_rows\<rparr>"


text \<open>The same tiles; the metadata rows give both zoom keys, the larger value under \<open>minzoom\<close>.\<close>

definition inverted_rows :: "(string option \<times> string option) list" where
  "inverted_rows = [(Some ''minzoom'', Some ''10''), (Some ''maxzoom'', Some ''5'')]"

definition inverted_db :: database where
  "inverted_db = demo_db\<lparr>metadata := Some inverted_rows\<rparr>"


text \<open>Both relations, no tile, and no zoom key in the metadata rows.\<close>

definition empty_rows :: "(string option \<times> string option) list" where
  "empty_rows = [(Some ''name'', Some ''empty'')]"

definition empty_db :: database where
  "empty_db =
     \<lparr>sqlite_master = [(''table'', ''metadata''), (''table'', ''tiles'')],
      tiles = Some [], metadata = Some empty_rows\<rparr>"


text \<open>
  A table \<open>tiles\<close> with a trigger of the same name (SQLite keeps triggers in a name
  space of their own, and one catalog row for each), and no metadata relation.
\<close>

definition dup_db :: database where
  "dup_db = \<lparr>sqlite_master = [(''table'', ''tiles''), (''trigger'', ''tiles'')],
             tiles = Some [], metadata = None\<rparr>"

text \<open>A table \<open>tiles\<close> and nothing else.\<close>

definition nometa_db :: database where
  "nometa_db = \<lparr>sqlite_master = [(''table'', ''tiles'')], tiles = Some [], metadata = None\<rparr>"

text \<open>A dataset \<open>a.mbtiles\<close> with a journal beside it.\<close>

definition journal_world :: world where
  "journal_world =
     fresh_world [(''a.mbtiles'', file_of demo_db),
                  (''a.mbtiles-journal'', \<lparr>modtime = 1700000000400000000, content = NotADatabase\<rparr>)]"

section \<open>Opening: the journal marker\<close>

lemma getModTime_journal:
  "stat w (path @ ''-journal'') = Inr j \<Longrightarrow>
   getModTime w path =
     Inl (case stat w path of
            Inr st \<Rightarrow> ErrJournal
          | Inl e \<Rightarrow> if e = ErrNotExist then ErrPathNotExist path else e)"
  by (simp add: getModTime_def split: sum.splits)

text \<open>
  C7. When \<^verbatim>\<open>os.Stat\<close> finds a sibling \<open>path-journal\<close>, both \<^verbatim>\<open>Open\<close> and
  \<^verbatim>\<open>OpenInMemory\<close> return an error and no handle, before any pool is created: the
  incomplete-tileset error when the dataset file itself is there, the path error of
  \<^verbatim>\<open>getModTime\<close> ("path does not exist", or the error of \<^verbatim>\<open>os.Stat\<close>) when it is not.
\<close>

theorem journal_sibling_refuses_open:
  assumes "stat w (path @ ''-journal'') = Inr j"
  shows "Open dtf dts w path =
           (Inl (case stat w path of
                   Inr st \<Rightarrow> ErrJournal
                 | Inl e \<Rightarrow> if e = ErrNotExist then ErrPathNotExist path else e), w)
         \<and> OpenInMemory dtf dts w path =
           (Inl (case stat w path of
                   Inr st \<Rightarrow> ErrJournal
                 | Inl e \<Rightarrow> if e = ErrNotExist then ErrPathNotExist path else e), w)"
  using getModTime_journal [OF assms]
  by (simp add: Open_def OpenInMemory_def)

theorem journal_sibling_refuses_open_witness:
  "stat journal_world (''a.mbtiles'' @ ''-journal'')
     = Inr \<lparr>modtime = 1700000000400000000, content = NotADatabase\<rparr>
   \<and> Open demo_sniff demo_probe journal_world ''a.mbtiles'' = (Inl ErrJournal, journal_world)
   \<and> OpenInMemory demo_sniff demo_probe journal_world ''a.mbtiles'' = (Inl ErrJournal, journal_world)"
proof -
  have j: "stat journal_world (''a.mbtiles'' @ ''-journal'')
             = Inr \<lparr>modtime = 1700000000400000000, content = NotADatabase\<rparr>"
    by (simp add: journal_world_def fresh_world_def)
  have s: "stat journal_world ''a.mbtiles'' = Inr (file_of demo_db)"
    by (simp add: journal_world_def fresh_world_def)
  show ?thesis
    using journal_sibling_refuses_open [OF j, of demo_sniff demo_probe] j s by simp
qed

section \<open>Opening: what the handle records\<close>

lemma copy_loop_eq: "copy_loop bck = snd (Step_all bck)"
  by (subst copy_loop.simps) (simp add: Step_all_def split: content.splits)

lemma getTileFormatAndSize_never_gzip:
  "fst (getTileFormatAndSize dtf dts con) \<noteq> GZIP"
  by (simp add: getTileFormatAndSize_def Let_def split: option.splits prod.splits)

lemma getTileFormatAndSize_ok:
  "getTileFormatAndSize dtf dts con = (fmt, sz, None) \<Longrightarrow>
   fmt = (if fst (dtf (sample_tile con)) = GZIP then PBF else fst (dtf (sample_tile con)))"
  by (auto simp: getTileFormatAndSize_def Let_def split: option.splits prod.splits if_splits)

lemma sample_tile_view:
  "conn_view con = c \<Longrightarrow> sample_tile con = sample_tile \<lparr>conn_pool = p, conn_view = c\<rparr>"
  by (auto simp add: sample_tile_def tile_rows_def)

lemma getModTime_Inr: "getModTime w path = Inr t \<Longrightarrow> \<exists>st. stat w path = Inr st"
  by (auto simp: getModTime_def split: sum.splits if_splits)

lemma sql_Open_view:
  "sql_Open w path = (db, w1) \<Longrightarrow> stat w path = Inr st \<Longrightarrow> view (pools w1 db) = content st"
  by (auto simp: sql_Open_def Let_def)

lemma DB_Conn_view: "DB_Conn w p = (Inr con, w') \<Longrightarrow> conn_view con = view (pools w p)"
  by (auto simp: DB_Conn_def Let_def split: if_splits content.splits)

lemma backup_to_memory_view:
  "backup_to_memory w srcConn = (Inr inMemDB, w') \<Longrightarrow> view (pools w' inMemDB) = conn_view srcConn"
  by (auto simp: backup_to_memory_def NewBackup_def Commit_def sql_OpenDB_def copy_loop_eq
           split: if_splits option.splits)

lemma Open_InrE:
  assumes "Open dtf dts w path = (Inr h, w')"
  obtains t db w1 con where "getModTime w path = Inr t" "sql_Open w path = (db, w1)"
    "DB_Conn w1 db = (Inr con, w')" "validateRequiredTables con = None"
    "getTileFormatAndSize dtf dts con = (format h, tilesize h, None)" "pool h = Some db"
  using assms by (auto simp: Open_def split: sum.splits prod.splits option.splits)

lemma OpenInMemory_InrE:
  assumes "OpenInMemory dtf dts w path = (Inr h, w')"
  obtains t db w1 srcConn w2 inMemDB w3 dstConn w4 where
    "getModTime w path = Inr t" "sql_Open w path = (db, w1)"
    "DB_Conn w1 db = (Inr srcConn, w2)" "backup_to_memory w2 srcConn = (Inr inMemDB, w3)"
    "DB_Conn w3 inMemDB = (Inr dstConn, w4)" "validateRequiredTables dstConn = None"
    "getTileFormatAndSize dtf dts dstConn = (format h, tilesize h, None)" "pool h = Some inMemDB"
  using assms by (auto simp: OpenInMemory_def split: sum.splits prod.splits option.splits)

text \<open>The handle of \<^verbatim>\<open>Open\<close> records what detection found on a session over the file.\<close>

lemma Open_format:
  assumes "Open dtf dts w path = (Inr h, w')"
  shows "\<exists>st con. stat w path = Inr st \<and> conn_view con = content st
           \<and> getTileFormatAndSize dtf dts con = (format h, tilesize h, None)"
proof -
  from assms obtain t db w1 con where
    t: "getModTime w path = Inr t" and o: "sql_Open w path = (db, w1)" and
    c: "DB_Conn w1 db = (Inr con, w')" and
    g: "getTileFormatAndSize dtf dts con = (format h, tilesize h, None)"
    by (rule Open_InrE)
  from t obtain st where st: "stat w path = Inr st" using getModTime_Inr by blast
  have "conn_view con = content st"
    using DB_Conn_view [OF c] sql_Open_view [OF o st] by simp
  with st g show ?thesis by blast
qed

text \<open>So does the handle of \<^verbatim>\<open>OpenInMemory\<close>: the copy holds what the file holds.\<close>

lemma OpenInMemory_format:
  assumes "OpenInMemory dtf dts w path = (Inr h, w')"
  shows "\<exists>st con. stat w path = Inr st \<and> conn_view con = content st
           \<and> getTileFormatAndSize dtf dts con = (format h, tilesize h, None)"
proof -
  from assms obtain t db w1 srcConn w2 inMemDB w3 dstConn w4 where
    t: "getModTime w path = Inr t" and o: "sql_Open w path = (db, w1)" and
    c: "DB_Conn w1 db = (Inr srcConn, w2)" and
    b: "backup_to_memory w2 srcConn = (Inr inMemDB, w3)" and
    d: "DB_Conn w3 inMemDB = (Inr dstConn, w4)" and
    g: "getTileFormatAndSize dtf dts dstConn = (format h, tilesize h, None)"
    by (rule OpenInMemory_InrE)
  from t obtain st where st: "stat w path = Inr st" using getModTime_Inr by blast
  have "conn_view srcConn = content st"
    using DB_Conn_view [OF c] sql_Open_view [OF o st] by simp
  then have "conn_view dstConn = content st"
    using DB_Conn_view [OF d] backup_to_memory_view [OF b] by simp
  with st g show ?thesis by blast
qed

text \<open>\<^verbatim>\<open>Open\<close> on the example datasets that pass validation.\<close>

lemmas Open_simps =
  Open_def getModTime_def on_disk_def fresh_world_def file_of_def sql_Open_def DB_Conn_def
  PrepareContext_def validateRequiredTables_def master_rows_def getTileFormatAndSize_def
  sample_tile_def tile_rows_def demo_sniff_def demo_probe_def round_second_def Let_def
  handle_of_def opened_def

lemma Open_demo:
  "Open demo_sniff demo_probe (on_disk demo_db) ''demo.mbtiles'' = (Inr (handle_of PBF), opened demo_db)"
  by (simp add: Open_simps demo_db_def demo_tiles_def)

lemma Open_inverted:
  "Open demo_sniff demo_probe (on_disk inverted_db) ''demo.mbtiles''
     = (Inr (handle_of PBF), opened inverted_db)"
  by (simp add: Open_simps inverted_db_def demo_db_def demo_tiles_def)

lemma Open_empty:
  "Open demo_sniff demo_probe (on_disk empty_db) ''demo.mbtiles''
     = (Inr (handle_of UNKNOWN), opened empty_db)"
  by (simp add: Open_simps empty_db_def)

text \<open>
  C9. The rewriting of GZIP to PBF is a step of \<^verbatim>\<open>getTileFormatAndSize\<close>, after the call
  of the sniffer \<open>dtf\<close>, whatever that function is. Whenever \<^verbatim>\<open>Open\<close> or \<^verbatim>\<open>OpenInMemory\<close>
  returns a handle, \<^verbatim>\<open>GetTileFormat\<close> never answers GZIP on it: it answers PBF when the
  sniffer classified the sampled tile bytes as GZIP, and the sniffer's own answer otherwise.
\<close>

theorem gzip_folded_into_pbf:
  assumes "Open dtf dts w path = (Inr h, w') \<or> OpenInMemory dtf dts w path = (Inr h, w')"
  shows "GetTileFormat (Some h) \<noteq> Returns GZIP
         \<and> (\<exists>st. stat w path = Inr st
              \<and> (fst (dtf (sample_tile \<lparr>conn_pool = p, conn_view = content st\<rparr>)) = GZIP
                   \<longrightarrow> GetTileFormat (Some h) = Returns PBF)
              \<and> (fst (dtf (sample_tile \<lparr>conn_pool = p, conn_view = content st\<rparr>)) \<noteq> GZIP
                   \<longrightarrow> GetTileFormat (Some h)
                        = Returns (fst (dtf (sample_tile \<lparr>conn_pool = p, conn_view = content st\<rparr>)))))"
proof -
  from assms obtain st con where st: "stat w path = Inr st" and v: "conn_view con = content st"
    and g: "getTileFormatAndSize dtf dts con = (format h, tilesize h, None)"
    using Open_format OpenInMemory_format by blast
  have s: "sample_tile con = sample_tile \<lparr>conn_pool = p, conn_view = content st\<rparr>"
    using v by (rule sample_tile_view)
  have n: "format h \<noteq> GZIP"
    using getTileFormatAndSize_never_gzip [of dtf dts con] g by simp
  have f: "format h = (if fst (dtf (sample_tile con)) = GZIP then PBF else fst (dtf (sample_tile con)))"
    using g by (rule getTileFormatAndSize_ok)
  show ?thesis
    using st n f s by (auto simp: GetTileFormat_def)
qed

theorem gzip_folded_into_pbf_witness:
  "Open demo_sniff demo_probe (on_disk demo_db) ''demo.mbtiles'' = (Inr (handle_of PBF), opened demo_db)
   \<and> stat (on_disk demo_db) ''demo.mbtiles'' = Inr (file_of demo_db)
   \<and> fst (demo_sniff (sample_tile \<lparr>conn_pool = 0, conn_view = content (file_of demo_db)\<rparr>)) = GZIP
   \<and> GetTileFormat (Some (handle_of PBF)) = Returns PBF"
proof -
  have o: "Open demo_sniff demo_probe (on_disk demo_db) ''demo.mbtiles''
             = (Inr (handle_of PBF), opened demo_db)"
    by (rule Open_demo)
  have s: "stat (on_disk demo_db) ''demo.mbtiles'' = Inr (file_of demo_db)"
    by (simp add: on_disk_def fresh_world_def)
  have z: "fst (demo_sniff (sample_tile \<lparr>conn_pool = 0, conn_view = content (file_of demo_db)\<rparr>)) = GZIP"
    by (simp add: demo_sniff_def sample_tile_def tile_rows_def file_of_def demo_db_def demo_tiles_def)
  show ?thesis
    using gzip_folded_into_pbf [OF disjI1 [OF o], of 0] o s z by auto
qed

section \<open>Opening: validation and the sessions it uses\<close>

text \<open>
  On a database, \<^verbatim>\<open>validateRequiredTables\<close> compares the number of catalog rows named
  \<open>tiles\<close> or \<open>metadata\<close> with 2, and reads nothing but the names of the catalog.
\<close>

lemma validateRequiredTables_Database:
  "validateRequiredTables \<lparr>conn_pool = p, conn_view = Database d\<rparr> =
     (if length (filter (\<lambda>row. snd row = ''tiles'' \<or> snd row = ''metadata'') (sqlite_master d)) < 2
      then Some ErrMissingTables else None)"
  by (simp add: validateRequiredTables_def PrepareContext_def master_rows_def Let_def case_prod_unfold)

lemma validateRequiredTables_frame:
  "validateRequiredTables \<lparr>conn_pool = p, conn_view = Database (d\<lparr>tiles := ts, metadata := ms\<rparr>)\<rparr>
     = validateRequiredTables \<lparr>conn_pool = q, conn_view = Database d\<rparr>"
  by (simp add: validateRequiredTables_Database)

lemma validateRequiredTables_both_present:
  assumes "(ty1, ''tiles'') \<in> set (sqlite_master d)" "(ty2, ''metadata'') \<in> set (sqlite_master d)"
  shows "validateRequiredTables \<lparr>conn_pool = p, conn_view = Database d\<rparr> = None"
proof -
  let ?P = "\<lambda>row :: string \<times> string. snd row = ''tiles'' \<or> snd row = ''metadata''"
  have "{(ty1, ''tiles''), (ty2, ''metadata'')} \<subseteq> set (filter ?P (sqlite_master d))"
    using assms by auto
  then have "card {(ty1, ''tiles''), (ty2, ''metadata'')} \<le> card (set (filter ?P (sqlite_master d)))"
    by (intro card_mono) auto
  moreover have "card (set (filter ?P (sqlite_master d))) \<le> length (filter ?P (sqlite_master d))"
    by (rule card_length)
  moreover have "card {(ty1, ''tiles''), (ty2, ''metadata'')} = 2"
    by simp
  ultimately show ?thesis
    by (simp add: validateRequiredTables_Database)
qed

text \<open>
  C8. The catalog of \<open>dup_db\<close> has two rows named \<open>tiles\<close> (the table and a trigger) and
  none named \<open>metadata\<close>. The count is 2, so \<^verbatim>\<open>validateRequiredTables\<close> returns no error
  although the metadata relation is absent, and \<^verbatim>\<open>Open\<close> returns a handle for the file.
\<close>

theorem validate_accepts_repeated_name:
  "validateRequiredTables \<lparr>conn_pool = 0, conn_view = Database dup_db\<rparr> = None
   \<and> ''metadata'' \<notin> snd ` set (sqlite_master dup_db)
   \<and> Open demo_sniff demo_probe (on_disk dup_db) ''demo.mbtiles''
       = (Inr (handle_of UNKNOWN), opened dup_db)"
  by (simp add: Open_simps dup_db_def)

text \<open>
  C5. On a file whose catalog lacks the metadata relation, \<^verbatim>\<open>Open\<close> returns the schema
  error and no handle, and leaves the pool it created open with its probing session still
  in use. \<^verbatim>\<open>OpenInMemory\<close> returns the same error; its deferred calls close the session
  and the pool on the source file (pool 0), while the in-memory pool (pool 1) stays open
  with the probing session still in use.
\<close>

theorem failed_open_keeps_session:
  "fst (Open demo_sniff demo_probe (on_disk nometa_db) ''demo.mbtiles'') = Inl ErrMissingTables
   \<and> in_use (pools (snd (Open demo_sniff demo_probe (on_disk nometa_db) ''demo.mbtiles'')) 0) = 1
   \<and> \<not> closed (pools (snd (Open demo_sniff demo_probe (on_disk nometa_db) ''demo.mbtiles'')) 0)
   \<and> fst (OpenInMemory demo_sniff demo_probe (on_disk nometa_db) ''demo.mbtiles'') = Inl ErrMissingTables
   \<and> in_use (pools (snd (OpenInMemory demo_sniff demo_probe (on_disk nometa_db) ''demo.mbtiles'')) 1) = 1
   \<and> \<not> closed (pools (snd (OpenInMemory demo_sniff demo_probe (on_disk nometa_db) ''demo.mbtiles'')) 1)
   \<and> in_use (pools (snd (OpenInMemory demo_sniff demo_probe (on_disk nometa_db) ''demo.mbtiles'')) 0) = 0
   \<and> closed (pools (snd (OpenInMemory demo_sniff demo_probe (on_disk nometa_db) ''demo.mbtiles'')) 0)"
  by (simp add: Open_simps OpenInMemory_def nometa_db_def backup_to_memory_def NewBackup_def
        Commit_def sql_OpenDB_def copy_loop_eq Step_all_def Conn_Close_def DB_Close_def
        inMemoryPath_def)

section \<open>Reading tiles\<close>

lemma Conn_Close_DB_Conn: "DB_Conn w p = (Inr con, w') \<Longrightarrow> Conn_Close w' con = w"
  by (auto simp: DB_Conn_def Conn_Close_def Let_def split: if_splits content.splits)

lemma DB_Conn_closed: "closed (pools w p) \<Longrightarrow> \<exists>e. DB_Conn w p = (Inl e, w)"
  by (simp add: DB_Conn_def)

lemma DB_Conn_open:
  "\<not> closed (pools w p) \<Longrightarrow> view (pools w p) = Database d \<Longrightarrow>
   \<exists>w'. DB_Conn w p = (Inr \<lparr>conn_pool = p, conn_view = Database d\<rparr>, w')"
  by (simp add: DB_Conn_def Let_def)

text \<open>A nil handle, or one whose pool is nil, gets the closed-handle error.\<close>

lemma ReadTile_unopened:
  "ReadTile w None z x y data = Returns (Some ErrClosed, data, w)"
  "pool h = None \<Longrightarrow> ReadTile w (Some h) z x y data = Returns (Some ErrClosed, data, w)"
  by (simp_all add: ReadTile_def)

lemma ReadMetadata_unopened:
  "ReadMetadata lib w None = Returns (Inl ErrClosed, w)"
  "pool h = None \<Longrightarrow> ReadMetadata lib w (Some h) = Returns (Inl ErrClosed, w)"
  by (simp_all add: ReadMetadata_def)

text \<open>
  \<^verbatim>\<open>Close\<close> closes the pool; the handle still points to it. A read then passes the
  nil test, gets no session, and panics in the deferred \<^verbatim>\<open>closeConnection(nil)\<close>.
\<close>

lemma Close_keeps_pool_field:
  "pool h = Some p \<Longrightarrow> Close w (Some h) = Returns (DB_Close w p) \<and> closed (pools (DB_Close w p) p)"
  by (simp add: Close_def DB_Close_def)

lemma ReadTile_closed_pool:
  assumes "pool h = Some p" "closed (pools w p)"
  shows "ReadTile w (Some h) z x y data = Panics"
  using assms DB_Conn_closed [OF assms(2)]
  by (auto simp: ReadTile_def getConnection_def closeConnection_def)

lemma ReadMetadata_closed_pool:
  assumes "pool h = Some p" "closed (pools w p)"
  shows "ReadMetadata lib w (Some h) = Panics"
  using assms DB_Conn_closed [OF assms(2)]
  by (auto simp: ReadMetadata_def getConnection_def closeConnection_def)

text \<open>
  C1. The handle \<^verbatim>\<open>Open\<close> returned for \<open>demo.mbtiles\<close>, after \<^verbatim>\<open>Close\<close>: \<^verbatim>\<open>ReadTile\<close> and
  \<^verbatim>\<open>ReadMetadata\<close> panic instead of returning the closed-handle error.
\<close>

theorem read_after_close_panics:
  "Close (opened demo_db) (Some (handle_of PBF)) = Returns (DB_Close (opened demo_db) 0)
   \<and> ReadTile (DB_Close (opened demo_db) 0) (Some (handle_of PBF)) 3 1 2 None = Panics
   \<and> ReadMetadata lib (DB_Close (opened demo_db) 0) (Some (handle_of PBF)) = Panics"
proof -
  have p: "pool (handle_of PBF) = Some 0" by (simp add: handle_of_def)
  show ?thesis
    using Close_keeps_pool_field [OF p, of "opened demo_db"]
      ReadTile_closed_pool [OF p, of "DB_Close (opened demo_db) 0"]
      ReadMetadata_closed_pool [OF p, of "DB_Close (opened demo_db) 0"]
    by simp
qed

text \<open>On an open handle \<^verbatim>\<open>ReadTile\<close> takes a session, runs the query and gives the session back.\<close>

lemma ReadTile_open:
  assumes "pool h = Some p" "\<not> closed (pools w p)" "view (pools w p) = Database d"
  shows "ReadTile w (Some h) z x y data =
           (case ReadTile_query \<lparr>conn_pool = p, conn_view = Database d\<rparr> z x y data of
              (err, data') \<Rightarrow> Returns (err, data', w))"
proof -
  obtain w' where c: "DB_Conn w p = (Inr \<lparr>conn_pool = p, conn_view = Database d\<rparr>, w')"
    using DB_Conn_open [OF assms(2,3)] by blast
  show ?thesis
    using assms(1) c Conn_Close_DB_Conn [OF c]
    by (simp add: ReadTile_def getConnection_def closeConnection_def Let_def case_prod_unfold)
qed

text \<open>For a coordinate with no row it returns no error and leaves the buffer as it was.\<close>

lemma ReadTile_absent:
  assumes "pool h = Some p" "\<not> closed (pools w p)" "view (pools w p) = Database d"
    and "tiles d = Some rs"
    and "find (\<lambda>r. zoom_level r = z \<and> tile_column r = x \<and> tile_row r = y) rs = None"
  shows "ReadTile w (Some h) z x y data = Returns (None, data, w)"
  using assms(4,5)
  by (simp add: ReadTile_open [OF assms(1-3)] ReadTile_query_def PrepareContext_def tile_rows_def)

lemma opened_pool:
  "pool (handle_of fmt) = Some 0" "\<not> closed (pools (opened d) 0)"
  "view (pools (opened d) 0) = Database d"
  by (simp_all add: handle_of_def opened_def)

text \<open>
  C4. A caller reads the tile at (3, 1, 2) into an empty buffer and then, with the same
  buffer, asks for (5, 0, 0), which has no row: the second call returns no error and the
  buffer still holds the bytes of the first tile.
\<close>

theorem absent_tile_keeps_stale_bytes:
  "ReadTile (opened demo_db) (Some (handle_of PBF)) 3 1 2 None
     = Returns (None, Some [0x1F, 0x8B, 8], opened demo_db)
   \<and> find (\<lambda>r. zoom_level r = 5 \<and> tile_column r = 0 \<and> tile_row r = 0)
        (tile_rows \<lparr>conn_pool = 0, conn_view = Database demo_db\<rparr>) = None
   \<and> ReadTile (opened demo_db) (Some (handle_of PBF)) 5 0 0 (Some [0x1F, 0x8B, 8])
     = Returns (None, Some [0x1F, 0x8B, 8], opened demo_db)"
  by (simp add: ReadTile_open [OF opened_pool] ReadTile_query_def PrepareContext_def
        tile_rows_def demo_db_def demo_tiles_def)

section \<open>Reading metadata: the zoom range\<close>






text \<open>
  After a \<open>json\<close> row with the value \<open>null\<close> the map is nil; if no later \<open>json\<close> row
  makes a new one, the assignment of the derived zoom range panics.
\<close>

lemma supplement_nil_map:
  "tiles d = Some ts \<Longrightarrow> supplement \<lparr>conn_pool = p, conn_view = Database d\<rparr> None = Panics"
  by (simp add: supplement_def has_key_def PrepareContext_def Let_def case_prod_unfold)


















section \<open>Reading metadata: bounds and center\<close>

















end
